theory Spec2Isabelle
  imports Complex_Main "HOL-Library.Sublist"
begin

section \<open>AegisClaim engine: classification, extraction, validation, decision\<close>

text \<open>
  A shallow embedding of the claim pipeline of \<^verbatim>\<open>app/services\<close>. Python exceptions are
  values of type \<open>error\<close> and a function that can raise returns \<open>error + 'a\<close>, with
  \<open>Inl\<close> for the exception. File access, the regular-expression batteries, the JSON
  parser and the classifier's language-model backend are arguments of the functions that
  use them.
  Text is modelled over ASCII: a \<open>string\<close> is the list of the characters of a Python
  \<^verbatim>\<open>str\<close>. Amounts (Python floats) are exact rationals; rounding, infinities and NaN are
  outside the model.
\<close>

subsection \<open>Common data\<close>

text \<open>\<^verbatim>\<open>app/schemas/claim.py\<close>, \<^verbatim>\<open>class DocumentType(str, Enum)\<close>.\<close>

datatype DocumentType = BILL | DISCHARGE_SUMMARY | ID_CARD | PRESCRIPTION | LAB_REPORT | UNKNOWN

text \<open>The exceptions the modelled code raises or receives, each with its message.\<close>

datatype error =
    AgentError string
  | ValueError string
  | TypeError string
  | AttributeError string
  | ValidationError string
  | BackendError string
  | OSError string

fun str_error :: "error \<Rightarrow> string" where
  "str_error (AgentError m) = m"
| "str_error (ValueError m) = m"
| "str_error (TypeError m) = m"
| "str_error (AttributeError m) = m"
| "str_error (ValidationError m) = m"
| "str_error (BackendError m) = m"
| "str_error (OSError m) = m"

text \<open>Python values that occur in the extracted dictionaries and as attributes.\<close>

datatype pyval =
    PyNone
  | PyNum rat
  | PyStr string
  | PyDocType DocumentType
  | PyList "pyval list"
  | PyDict "(string \<times> pyval) list"

type_synonym dict = "(string \<times> pyval) list"

text \<open>A path is the string of its parts; \<^verbatim>\<open>Path.name\<close> is the last part.\<close>

type_synonym path = string

definition path_name :: "path \<Rightarrow> string" where
  "path_name p = rev (takeWhile (\<lambda>c. c \<noteq> CHR ''/'') (rev p))"

subsection \<open>Strings\<close>

definition NL :: string where
  "NL = [CHR 0x0A]"

text \<open>\<^verbatim>\<open>str.isspace\<close> on ASCII: tab, line feed, vertical tab, form feed, carriage return,
  the four separators 0x1C..0x1F and the space.\<close>

definition is_space :: "char \<Rightarrow> bool" where
  "is_space c \<longleftrightarrow> c \<in> set [CHR 0x09, CHR 0x0A, CHR 0x0B, CHR 0x0C, CHR 0x0D,
                              CHR 0x1C, CHR 0x1D, CHR 0x1E, CHR 0x1F, CHR 0x20]"

definition py_strip :: "string \<Rightarrow> string" where
  "py_strip s = rev (dropWhile is_space (rev (dropWhile is_space s)))"

definition lower_char :: "char \<Rightarrow> char" where
  "lower_char c =
     (case map_of (zip ''ABCDEFGHIJKLMNOPQRSTUVWXYZ'' ''abcdefghijklmnopqrstuvwxyz'') c of
        Some l \<Rightarrow> l
      | None \<Rightarrow> c)"

definition py_lower :: "string \<Rightarrow> string" where
  "py_lower s = map lower_char s"

text \<open>\<^verbatim>\<open>sep.join(parts)\<close>.\<close>

fun py_join :: "string \<Rightarrow> string list \<Rightarrow> string" where
  "py_join sep [] = []"
| "py_join sep [x] = x"
| "py_join sep (x # y # ys) = x @ sep @ py_join sep (y # ys)"

text \<open>\<^verbatim>\<open>s.endswith(suffix)\<close>.\<close>

definition endswith :: "string \<Rightarrow> string \<Rightarrow> bool" where
  "endswith s suf \<longleftrightarrow> length suf \<le> length s \<and> drop (length s - length suf) s = suf"

subsection \<open>Dictionaries\<close>

text \<open>A \<^verbatim>\<open>dict\<close> is an association list with distinct keys in insertion order.
  \<^verbatim>\<open>d[k] = v\<close> keeps the place of a key that is present and appends a new one.\<close>

fun dict_set :: "('k \<times> 'v) list \<Rightarrow> 'k \<Rightarrow> 'v \<Rightarrow> ('k \<times> 'v) list" where
  "dict_set [] k v = [(k, v)]"
| "dict_set ((k', v') # d) k v = (if k' = k then (k, v) # d else (k', v') # dict_set d k v)"

text \<open>\<^verbatim>\<open>d.update(other)\<close>: every item of \<open>other\<close> is stored into \<open>d\<close>, in order.\<close>

fun dict_update :: "('k \<times> 'v) list \<Rightarrow> ('k \<times> 'v) list \<Rightarrow> ('k \<times> 'v) list" where
  "dict_update d [] = d"
| "dict_update d ((k, v) # other) = dict_update (dict_set d k v) other"

text \<open>\<^verbatim>\<open>k in d\<close> and \<^verbatim>\<open>all(k in d for k in ks)\<close>.\<close>

definition has_key :: "('k \<times> 'v) list \<Rightarrow> 'k \<Rightarrow> bool" where
  "has_key d k \<longleftrightarrow> k \<in> set (map fst d)"

definition has_all :: "('k \<times> 'v) list \<Rightarrow> 'k list \<Rightarrow> bool" where
  "has_all d ks \<longleftrightarrow> (\<forall>k \<in> set ks. has_key d k)"

subsection \<open>Classifier (\<^verbatim>\<open>agents/classifier_agent.py\<close>)\<close>

text \<open>\<^verbatim>\<open>_create_classification_prompt\<close>: the f-string, line by line.\<close>

definition create_classification_prompt :: "string \<Rightarrow> string \<Rightarrow> string" where
  "create_classification_prompt filename text =
     ''You are an expert document classifier for medical insurance claims. '' @ NL @
     ''        Your task is to classify the following document based on its filename and content.'' @ NL @
     ''        '' @ NL @
     ''        Filename: '' @ filename @ NL @
     ''        Document content (first 2000 chars):'' @ NL @
     ''        '' @ text @ NL @
     ''        '' @ NL @
     ''        Possible document types:'' @ NL @
     ''        - bill: Hospital or medical bill with charges'' @ NL @
     ''        - discharge_summary: Hospital discharge summary with patient details and treatment'' @ NL @
     ''        - id_card: Insurance ID card with policy information'' @ NL @
     ''        - prescription: Doctor'' @ [CHR 0x27] @ ''s prescription'' @ NL @
     ''        - lab_report: Laboratory test results'' @ NL @
     ''        - unknown: If the document doesn'' @ [CHR 0x27] @ ''t fit any category'' @ NL @
     ''        '' @ NL @
     ''        Respond with ONLY the document type (bill, discharge_summary, id_card, prescription, lab_report, or unknown).'' @ NL @
     ''        Do not include any other text in your response.''"

text \<open>The synonym table of \<^verbatim>\<open>_parse_classification_response\<close>.\<close>

definition type_mapping :: "(string \<times> DocumentType) list" where
  "type_mapping =
     [(''bill'', BILL),
      (''discharge'', DISCHARGE_SUMMARY),
      (''discharge summary'', DISCHARGE_SUMMARY),
      (''discharge_summary'', DISCHARGE_SUMMARY),
      (''id'', ID_CARD),
      (''id card'', ID_CARD),
      (''id_card'', ID_CARD),
      (''insurance card'', ID_CARD),
      (''prescription'', PRESCRIPTION),
      (''lab'', LAB_REPORT),
      (''lab report'', LAB_REPORT),
      (''lab_report'', LAB_REPORT),
      (''test results'', LAB_REPORT)]"

definition parse_classification_response :: "string \<Rightarrow> DocumentType" where
  "parse_classification_response response =
     (let doc_type = py_lower (py_strip response)
      in case map_of type_mapping doc_type of Some t \<Rightarrow> t | None \<Rightarrow> UNKNOWN)"

text \<open>The body of the \<^verbatim>\<open>try\<close> of \<^verbatim>\<open>classify_document\<close>. \<open>extract_text\<close> is
  \<^verbatim>\<open>BaseAgent._extract_text\<close> (file access) and \<open>call_llm\<close> is \<^verbatim>\<open>BaseAgent._call_llm\<close>
  (the backend); either may raise.\<close>

definition classify_try ::
  "(path \<Rightarrow> error + string) \<Rightarrow> (string \<Rightarrow> error + string) \<Rightarrow> path \<Rightarrow> error + DocumentType" where
  "classify_try extract_text call_llm file_path =
     (case extract_text file_path of
        Inl e \<Rightarrow> Inl e
      | Inr text \<Rightarrow>
          (case call_llm (create_classification_prompt (path_name file_path) (take 2000 text)) of
             Inl e \<Rightarrow> Inl e
           | Inr response \<Rightarrow> Inr (parse_classification_response response)))"

text \<open>\<^verbatim>\<open>classify_document\<close>: \<^verbatim>\<open>except Exception\<close> returns \<^verbatim>\<open>DocumentType.UNKNOWN\<close>.\<close>

definition classify_document ::
  "(path \<Rightarrow> error + string) \<Rightarrow> (string \<Rightarrow> error + string) \<Rightarrow> path \<Rightarrow> error + DocumentType" where
  "classify_document extract_text call_llm file_path =
     (case classify_try extract_text call_llm file_path of
        Inl e \<Rightarrow> Inr UNKNOWN
      | Inr doc_type \<Rightarrow> Inr doc_type)"

subsection \<open>Dates (\<^verbatim>\<open>datetime.strptime\<close> and \<^verbatim>\<open>strftime\<close>)\<close>

record date =
  year :: nat
  month :: nat
  day :: nat


definition digit_char :: "nat \<Rightarrow> char" where
  "digit_char n = ''0123456789'' ! (n mod 10)"


definition two_digits :: "nat \<Rightarrow> string" where
  "two_digits n = [digit_char (n div 10), digit_char n]"

definition four_digits :: "nat \<Rightarrow> string" where
  "four_digits n = two_digits (n div 100 mod 100) @ two_digits (n mod 100)"








text \<open>The fields found so far: year, month, day.\<close>

type_synonym fields = "nat option \<times> nat option \<times> nat option"







text \<open>\<^verbatim>\<open>dt.strftime('%Y-%m-%d')\<close>, the year written with four digits.\<close>

definition strftime_iso :: "date \<Rightarrow> string" where
  "strftime_iso dt =
     four_digits (year dt) @ ''-'' @ two_digits (month dt) @ ''-'' @ two_digits (day dt)"
























subsection \<open>Extraction agents\<close>

text \<open>Every \<^verbatim>\<open>extract\<close> returns a pair: the texts it handed to \<^verbatim>\<open>_extract_with_llm\<close>, in
  order (the invocations of the fallback pass), and the dictionary or the exception it
  ends with. \<open>extract_with_regex\<close> is the agent's pattern battery and
  \<open>extract_with_llm\<close> its fallback pass, which may raise; the pass the agents really
  have is \<open>extract_with_llm\<close> below.\<close>

type_synonym extraction = "string list \<times> (error + dict)"

definition Bill_required_fields :: "string list" where
  "Bill_required_fields = [''total_amount'', ''date_of_service'']"

text \<open>\<^verbatim>\<open>BillAgent.extract\<close>, from the regex pass on (lines 84 to 97).\<close>

definition Bill_extract_fields ::
  "(string \<Rightarrow> dict) \<Rightarrow> (string \<Rightarrow> error + dict) \<Rightarrow> string \<Rightarrow> extraction" where
  "Bill_extract_fields extract_with_regex extract_with_llm text =
     (let extracted = extract_with_regex text
      in if \<not> has_all extracted Bill_required_fields then
           (case extract_with_llm text of
              Inl e \<Rightarrow> ([text], Inl e)
            | Inr llm_data \<Rightarrow>
                (let extracted = dict_update extracted llm_data
                 in if \<not> has_all extracted Bill_required_fields
                    then ([text], Inl (ValueError ''Missing required fields in bill data''))
                    else ([text], Inr extracted)))
         else ([], Inr extracted))"

text \<open>\<^verbatim>\<open>BillAgent.extract\<close>, whole: the text is first replaced by the text of the PDF when
  the text or the path names one (\<open>pdf_text\<close> is \<^verbatim>\<open>_extract_text_from_pdf\<close>), an empty
  text by the content of the file when it exists (\<open>read_text\<close>, \<open>None\<close> when it does
  not), and a text that is still empty raises.\<close>

definition Bill_extract ::
  "(path \<Rightarrow> error + string) \<Rightarrow> (path \<Rightarrow> (error + string) option) \<Rightarrow>
   (string \<Rightarrow> dict) \<Rightarrow> (string \<Rightarrow> error + dict) \<Rightarrow> string \<Rightarrow> path option \<Rightarrow> extraction" where
  "Bill_extract pdf_text read_text extract_with_regex extract_with_llm text file_path =
     (case (if endswith text ''.pdf'' then pdf_text text
            else (case file_path of
                    Some p \<Rightarrow> if endswith p ''.pdf'' then pdf_text p else Inr text
                  | None \<Rightarrow> Inr text)) of
        Inl e \<Rightarrow> ([], Inl e)
      | Inr text1 \<Rightarrow>
          (case (if text1 = [] then
                   (case file_path of
                      Some p \<Rightarrow> (case read_text p of Some r \<Rightarrow> r | None \<Rightarrow> Inr text1)
                    | None \<Rightarrow> Inr text1)
                 else Inr text1) of
             Inl e \<Rightarrow> ([], Inl e)
           | Inr text2 \<Rightarrow>
               if text2 = [] then ([], Inl (ValueError ''No text content found in the document''))
               else Bill_extract_fields extract_with_regex extract_with_llm text2))"

text \<open>The list \<^verbatim>\<open>missing\<close> of the other agents' error message.\<close>

definition missing_fields :: "dict \<Rightarrow> string list \<Rightarrow> string list" where
  "missing_fields extracted required_fields = filter (\<lambda>f. \<not> has_key extracted f) required_fields"

definition IdCard_required_fields :: "string list" where
  "IdCard_required_fields = [''insurance_provider'', ''policy_number'', ''member_id'', ''member_name'']"

text \<open>\<^verbatim>\<open>IdCardAgent.extract\<close>.\<close>

definition IdCard_extract ::
  "(string \<Rightarrow> dict) \<Rightarrow> (string \<Rightarrow> error + dict) \<Rightarrow> string \<Rightarrow> extraction" where
  "IdCard_extract extract_with_regex extract_with_llm text =
     (let extracted = extract_with_regex text
      in case extract_with_llm text of
           Inl e \<Rightarrow> ([text], Inl e)
         | Inr llm_data \<Rightarrow>
             (let extracted = dict_update extracted llm_data
              in if \<not> has_all extracted IdCard_required_fields
                 then ([text], Inl (ValueError (''Missing required fields in ID card: '' @
                         py_join '', '' (missing_fields extracted IdCard_required_fields))))
                 else ([text], Inr extracted)))"

definition Prescription_required_fields :: "string list" where
  "Prescription_required_fields = [''patient_name'', ''date_prescribed'', ''medications'']"

text \<open>\<^verbatim>\<open>PrescriptionAgent.extract\<close>.\<close>

definition Prescription_extract ::
  "(string \<Rightarrow> dict) \<Rightarrow> (string \<Rightarrow> error + dict) \<Rightarrow> string \<Rightarrow> extraction" where
  "Prescription_extract extract_with_regex extract_with_llm text =
     (let extracted = extract_with_regex text
      in case extract_with_llm text of
           Inl e \<Rightarrow> ([text], Inl e)
         | Inr llm_data \<Rightarrow>
             (let extracted = dict_update extracted llm_data
              in if \<not> has_all extracted Prescription_required_fields
                 then ([text], Inl (ValueError (''Missing required fields in prescription: '' @
                         py_join '', '' (missing_fields extracted Prescription_required_fields))))
                 else ([text], Inr extracted)))"

definition Discharge_required_fields :: "string list" where
  "Discharge_required_fields = [''patient_name'', ''diagnosis'', ''admission_date'', ''discharge_date'']"

text \<open>\<^verbatim>\<open>DischargeAgent.extract\<close>.\<close>

definition Discharge_extract ::
  "(string \<Rightarrow> dict) \<Rightarrow> (string \<Rightarrow> error + dict) \<Rightarrow> string \<Rightarrow> extraction" where
  "Discharge_extract extract_with_regex extract_with_llm text =
     (let extracted = extract_with_regex text
      in case extract_with_llm text of
           Inl e \<Rightarrow> ([text], Inl e)
         | Inr llm_data \<Rightarrow>
             (let extracted = dict_update extracted llm_data
              in if \<not> has_all extracted Discharge_required_fields
                 then ([text], Inl (ValueError (''Missing required fields in discharge summary: '' @
                         py_join '', '' (missing_fields extracted Discharge_required_fields))))
                 else ([text], Inr extracted)))"

definition LabReport_required_fields :: "string list" where
  "LabReport_required_fields = [''patient_name'', ''test_results'', ''date_collected'']"

text \<open>\<^verbatim>\<open>LabReportAgent.extract\<close>; \<open>now\<close> is the date \<^verbatim>\<open>datetime.now()\<close> returns when the
  default is set.\<close>

definition LabReport_extract ::
  "date \<Rightarrow> (string \<Rightarrow> dict) \<Rightarrow> (string \<Rightarrow> error + dict) \<Rightarrow> string \<Rightarrow> extraction" where
  "LabReport_extract now extract_with_regex extract_with_llm text =
     (let extracted = extract_with_regex text
      in case extract_with_llm text of
           Inl e \<Rightarrow> ([text], Inl e)
         | Inr llm_data \<Rightarrow>
             (let extracted = dict_update extracted llm_data
              in if \<not> has_all extracted LabReport_required_fields
                 then ([text], Inl (ValueError (''Missing required fields in lab report: '' @
                         py_join '', '' (missing_fields extracted LabReport_required_fields))))
                 else if \<not> has_key extracted ''date_reported''
                 then ([text], Inr (dict_set extracted ''date_reported'' (PyStr (strftime_iso now))))
                 else ([text], Inr extracted)))"

text \<open>The message of the \<^verbatim>\<open>AttributeError\<close> for a missing attribute.\<close>

definition no_attribute :: "string \<Rightarrow> string \<Rightarrow> string" where
  "no_attribute cls name =
     [CHR 0x27] @ cls @ [CHR 0x27] @ '' object has no attribute '' @ [CHR 0x27] @ name @ [CHR 0x27]"

text \<open>\<^verbatim>\<open>self._call_llm(prompt, generation_config=...)\<close> in an extraction agent. The five
  agents derive from \<^verbatim>\<open>BaseExtractionAgent(ABC, Generic[T])\<close>; neither they nor that class
  define \<^verbatim>\<open>_call_llm\<close> (\<^verbatim>\<open>BaseAgent\<close> does, and only the classifier derives from it), so the
  attribute lookup raises before anything is sent.\<close>

definition extraction_agent_call_llm :: "string \<Rightarrow> string \<Rightarrow> error + string" where
  "extraction_agent_call_llm cls prompt = Inl (AttributeError (no_attribute cls ''_call_llm''))"

text \<open>\<^verbatim>\<open>_extract_with_llm\<close>, the same three steps in every agent: the prompt from the first
  4000 characters, the call, the parsing of the response. \<open>create_extraction_prompt\<close> and
  \<open>parse_llm_response\<close> are the agent's own (the prompt text and the JSON parser are not
  modelled).\<close>

definition extract_with_llm ::
  "string \<Rightarrow> (string \<Rightarrow> string) \<Rightarrow> (string \<Rightarrow> error + dict) \<Rightarrow> string \<Rightarrow> error + dict" where
  "extract_with_llm cls create_extraction_prompt parse_llm_response text =
     (let prompt = create_extraction_prompt (take 4000 text)
      in case extraction_agent_call_llm cls prompt of
           Inl e \<Rightarrow> Inl e
         | Inr response \<Rightarrow> parse_llm_response response)"

subsection \<open>Schemas (\<^verbatim>\<open>app/schemas/claim.py\<close>)\<close>

text \<open>A field of a pydantic model is required (\<^verbatim>\<open>Field(...)\<close>) or has a default.\<close>

datatype field_spec = Required | Default pyval

definition BillDocument_fields :: "(string \<times> field_spec) list" where
  "BillDocument_fields =
     [(''type'', Default (PyDocType BILL)),
      (''hospital_name'', Required),
      (''total_amount'', Required),
      (''date_of_service'', Required),
      (''patient_name'', Default PyNone),
      (''patient_id'', Default PyNone),
      (''items'', Default (PyList [])),
      (''diagnosis_codes'', Default (PyList [])),
      (''procedure_codes'', Default (PyList []))]"

definition DischargeSummaryDocument_fields :: "(string \<times> field_spec) list" where
  "DischargeSummaryDocument_fields =
     [(''type'', Default (PyDocType DISCHARGE_SUMMARY)),
      (''patient_name'', Required),
      (''patient_id'', Default PyNone),
      (''admission_date'', Required),
      (''discharge_date'', Required),
      (''diagnosis'', Required),
      (''secondary_diagnoses'', Default (PyList [])),
      (''procedures'', Default (PyList [])),
      (''discharge_instructions'', Default PyNone)]"

definition IdCardDocument_fields :: "(string \<times> field_spec) list" where
  "IdCardDocument_fields =
     [(''type'', Default (PyDocType ID_CARD)),
      (''insurance_provider'', Required),
      (''policy_number'', Required),
      (''group_number'', Default PyNone),
      (''member_id'', Required),
      (''member_name'', Required),
      (''relationship'', Default (PyStr ''self'')),
      (''effective_date'', Default PyNone),
      (''expiration_date'', Default PyNone)]"

definition PrescriptionDocument_fields :: "(string \<times> field_spec) list" where
  "PrescriptionDocument_fields =
     [(''type'', Default (PyDocType PRESCRIPTION)),
      (''patient_name'', Required),
      (''date_prescribed'', Required),
      (''medications'', Required),
      (''prescriber_name'', Default PyNone),
      (''prescriber_license'', Default PyNone),
      (''instructions'', Default PyNone)]"

definition LabReportDocument_fields :: "(string \<times> field_spec) list" where
  "LabReportDocument_fields =
     [(''type'', Default (PyDocType LAB_REPORT)),
      (''patient_name'', Required),
      (''patient_id'', Default PyNone),
      (''date_collected'', Required),
      (''date_reported'', Required),
      (''test_results'', Required),
      (''lab_name'', Default PyNone),
      (''ordering_physician'', Default PyNone)]"

fun model_fields :: "DocumentType \<Rightarrow> (string \<times> field_spec) list" where
  "model_fields BILL = BillDocument_fields"
| "model_fields DISCHARGE_SUMMARY = DischargeSummaryDocument_fields"
| "model_fields ID_CARD = IdCardDocument_fields"
| "model_fields PRESCRIPTION = PrescriptionDocument_fields"
| "model_fields LAB_REPORT = LabReportDocument_fields"
| "model_fields UNKNOWN = []"

text \<open>Validation of a dictionary against one model: every declared field takes its
  value from the dictionary, checked and converted by \<open>coerce\<close> (pydantic's validation of
  one field: its type, \<^verbatim>\<open>gt=0\<close>, the \<^verbatim>\<open>Literal\<close> of \<^verbatim>\<open>type\<close>; \<open>None\<close> when it rejects the
  value), or its default; a required field that is absent fails. Keys that are not
  fields are ignored.\<close>

fun validate_fields ::
  "(DocumentType \<Rightarrow> string \<Rightarrow> pyval \<Rightarrow> pyval option) \<Rightarrow> DocumentType \<Rightarrow>
   (string \<times> field_spec) list \<Rightarrow> dict \<Rightarrow> dict option" where
  "validate_fields coerce m [] obj = Some []"
| "validate_fields coerce m ((k, spec) # fs) obj =
     (case (case map_of obj k of
              Some v \<Rightarrow> coerce m k v
            | None \<Rightarrow> (case spec of Required \<Rightarrow> None | Default v \<Rightarrow> Some v)) of
        None \<Rightarrow> None
      | Some v \<Rightarrow> map_option ((#) (k, v)) (validate_fields coerce m fs obj))"

text \<open>\<^verbatim>\<open>class ClaimDocument(RootModel)\<close>: the root is one of the five models.\<close>

datatype ClaimDocument = ClaimDocument (root_type: DocumentType) (root: dict)

definition union_members :: "DocumentType list" where
  "union_members = [BILL, DISCHARGE_SUMMARY, ID_CARD, PRESCRIPTION, LAB_REPORT]"

fun first_valid ::
  "(DocumentType \<Rightarrow> string \<Rightarrow> pyval \<Rightarrow> pyval option) \<Rightarrow> DocumentType list \<Rightarrow> dict \<Rightarrow>
   ClaimDocument option" where
  "first_valid coerce [] obj = None"
| "first_valid coerce (m # ms) obj =
     (case validate_fields coerce m (model_fields m) obj of
        Some fs \<Rightarrow> Some (ClaimDocument m fs)
      | None \<Rightarrow> first_valid coerce ms obj)"

text \<open>\<^verbatim>\<open>ClaimDocument.parse_obj(obj)\<close>: a member of the union that validates the
  dictionary, \<^verbatim>\<open>ValidationError\<close> when none does.\<close>

definition ClaimDocument_parse_obj ::
  "(DocumentType \<Rightarrow> string \<Rightarrow> pyval \<Rightarrow> pyval option) \<Rightarrow> dict \<Rightarrow> error + ClaimDocument" where
  "ClaimDocument_parse_obj coerce obj =
     (case first_valid coerce union_members obj of
        Some doc \<Rightarrow> Inr doc
      | None \<Rightarrow> Inl (ValidationError ''validation errors for ClaimDocument''))"

text \<open>What the validator and the decision engine read of a document, each behind
  \<^verbatim>\<open>hasattr\<close>: \<^verbatim>\<open>doc.type\<close>, \<^verbatim>\<open>doc.patient_name\<close> (a string or \<^verbatim>\<open>None\<close>) and
  \<^verbatim>\<open>doc.total_amount\<close>.\<close>

datatype 'a attr = Absent | Present 'a

record doc_attrs =
  type_attr :: "DocumentType attr"
  patient_name_attr :: "string option attr"
  total_amount_attr :: "pyval attr"

record discrepancy =
  field :: string
  message :: string
  details :: "(pyval \<times> string) list"

record ClaimValidation =
  missing_documents :: "string list"
  discrepancies :: "discrepancy list"
  is_valid :: bool

datatype decision_status = approved | rejected | pending

record ClaimDecision =
  status :: decision_status
  reason :: string
  amount_approved :: rat
  amount_rejected :: rat

subsection \<open>Orchestrator (\<^verbatim>\<open>claim_processor.py\<close>)\<close>

text \<open>What \<^verbatim>\<open>ClaimProcessor\<close> works with but does not define: \<open>agents\<close> is
  \<^verbatim>\<open>self.agents.get(doc_type)\<close> with \<^verbatim>\<open>agent.process(file_path)\<close> followed by \<^verbatim>\<open>.dict()\<close>;
  \<open>st_size\<close> is \<^verbatim>\<open>file_path.stat().st_size\<close>; \<open>attrs_of\<close> is what \<^verbatim>\<open>hasattr\<close> and attribute
  access give on a \<^verbatim>\<open>ClaimDocument\<close>; \<open>float_of_str\<close> is \<^verbatim>\<open>float\<close> on a string (\<open>None\<close>
  for its \<^verbatim>\<open>ValueError\<close>); \<open>required_docs\<close> is the set \<^verbatim>\<open>self.required_docs\<close> in the order
  its iteration yields.\<close>

record collaborators =
  extract_text :: "path \<Rightarrow> error + string"
  call_llm :: "string \<Rightarrow> error + string"
  agents :: "DocumentType \<Rightarrow> (path \<Rightarrow> error + dict) option"
  st_size :: "path \<Rightarrow> error + nat"
  coerce :: "DocumentType \<Rightarrow> string \<Rightarrow> pyval \<Rightarrow> pyval option"
  attrs_of :: "ClaimDocument \<Rightarrow> doc_attrs"
  float_of_str :: "string \<Rightarrow> rat option"
  required_docs :: "DocumentType list"

definition doc_descriptions :: "(DocumentType \<times> string) list" where
  "doc_descriptions =
     [(BILL, ''medical bill''),
      (DISCHARGE_SUMMARY, ''discharge summary''),
      (ID_CARD, ''insurance ID card''),
      (PRESCRIPTION, ''prescription''),
      (LAB_REPORT, ''lab report'')]"

fun type_name :: "DocumentType \<Rightarrow> string" where
  "type_name BILL = ''BILL''"
| "type_name DISCHARGE_SUMMARY = ''DISCHARGE_SUMMARY''"
| "type_name ID_CARD = ''ID_CARD''"
| "type_name PRESCRIPTION = ''PRESCRIPTION''"
| "type_name LAB_REPORT = ''LAB_REPORT''"
| "type_name UNKNOWN = ''UNKNOWN''"

text \<open>\<^verbatim>\<open>_classify_single_doc\<close>.\<close>

definition classify_single_doc :: "collaborators \<Rightarrow> path \<Rightarrow> path \<times> DocumentType" where
  "classify_single_doc env file_path =
     (case classify_document (extract_text env) (call_llm env) file_path of
        Inl e \<Rightarrow> (file_path, UNKNOWN)
      | Inr doc_type \<Rightarrow> (file_path, doc_type))"

text \<open>\<^verbatim>\<open>_classify_documents\<close>: \<^verbatim>\<open>asyncio.gather\<close> returns the results in the order of the
  tasks.\<close>

definition classify_documents :: "collaborators \<Rightarrow> path list \<Rightarrow> (path \<times> DocumentType) list" where
  "classify_documents env file_paths = map (classify_single_doc env) file_paths"

text \<open>The \<^verbatim>\<open>try\<close> body of the loop of \<^verbatim>\<open>_process_documents\<close> for one document whose
  agent is \<open>agent\<close>.\<close>

definition process_try ::
  "collaborators \<Rightarrow> (path \<Rightarrow> error + dict) \<Rightarrow> path \<Rightarrow> error + ClaimDocument" where
  "process_try env agent file_path =
     (case agent file_path of
        Inl e \<Rightarrow> Inl e
      | Inr result_dict \<Rightarrow>
          (let result_dict = dict_set result_dict ''file_name'' (PyStr (path_name file_path))
           in case st_size env file_path of
                Inl e \<Rightarrow> Inl e
              | Inr n \<Rightarrow>
                  ClaimDocument_parse_obj (coerce env)
                    (dict_set result_dict ''file_size'' (PyNum (of_nat n)))))"

text \<open>The dictionary the \<^verbatim>\<open>except\<close> branch hands to \<^verbatim>\<open>ClaimDocument.parse_obj\<close>.\<close>

definition error_document :: "DocumentType \<Rightarrow> path \<Rightarrow> error \<Rightarrow> dict" where
  "error_document doc_type file_path e =
     [(''type'', PyDocType doc_type),
      (''file_name'', PyStr (path_name file_path)),
      (''error'', PyStr (str_error e)),
      (''status'', PyStr ''error'')]"

text \<open>One turn of the loop: \<open>Inr None\<close> is \<^verbatim>\<open>continue\<close>, \<open>Inr (Some doc)\<close> is
  \<^verbatim>\<open>processed.append(doc)\<close>, \<open>Inl e\<close> is an exception that leaves the loop.\<close>

definition process_one ::
  "collaborators \<Rightarrow> path \<times> DocumentType \<Rightarrow> error + ClaimDocument option" where
  "process_one env item =
     (case item of (file_path, doc_type) \<Rightarrow>
        if doc_type = UNKNOWN then Inr None
        else (case agents env doc_type of
                None \<Rightarrow> Inr None
              | Some agent \<Rightarrow>
                  (case process_try env agent file_path of
                     Inr doc \<Rightarrow> Inr (Some doc)
                   | Inl e \<Rightarrow>
                       (case ClaimDocument_parse_obj (coerce env)
                               (error_document doc_type file_path e) of
                          Inl e' \<Rightarrow> Inl e'
                        | Inr doc \<Rightarrow> Inr (Some doc)))))"

text \<open>\<^verbatim>\<open>_process_documents\<close>: the loop, \<open>processed\<close> the list built so far.\<close>

fun process_loop ::
  "collaborators \<Rightarrow> ClaimDocument list \<Rightarrow> (path \<times> DocumentType) list \<Rightarrow>
   error + ClaimDocument list" where
  "process_loop env processed [] = Inr processed"
| "process_loop env processed (item # classified_docs) =
     (case process_one env item of
        Inl e \<Rightarrow> Inl e
      | Inr None \<Rightarrow> process_loop env processed classified_docs
      | Inr (Some doc) \<Rightarrow> process_loop env (processed @ [doc]) classified_docs)"

definition process_documents ::
  "collaborators \<Rightarrow> (path \<times> DocumentType) list \<Rightarrow> error + ClaimDocument list" where
  "process_documents env classified_docs = process_loop env [] classified_docs"

subsection \<open>Validator\<close>

text \<open>\<^verbatim>\<open>{doc.type for doc in documents if hasattr(doc, 'type')}\<close>, as a list.\<close>

definition found_types :: "doc_attrs list \<Rightarrow> DocumentType list" where
  "found_types documents =
     concat (map (\<lambda>doc. case type_attr doc of Present t \<Rightarrow> [t] | Absent \<Rightarrow> []) documents)"

text \<open>\<^verbatim>\<open>self.doc_descriptions.get(doc_type, doc_type.name)\<close>.\<close>

definition describe :: "DocumentType \<Rightarrow> string" where
  "describe doc_type =
     (case map_of doc_descriptions doc_type of Some d \<Rightarrow> d | None \<Rightarrow> type_name doc_type)"

text \<open>\<^verbatim>\<open>self.doc_descriptions.get(doc.type, doc.type)\<close>: the key of \<^verbatim>\<open>patient_names\<close>.\<close>

definition description_key :: "DocumentType \<Rightarrow> pyval" where
  "description_key doc_type =
     (case map_of doc_descriptions doc_type of Some d \<Rightarrow> PyStr d | None \<Rightarrow> PyDocType doc_type)"

text \<open>The loop that fills \<^verbatim>\<open>patient_names\<close>. A document with a non-empty patient name
  and no attribute \<^verbatim>\<open>type\<close> raises \<^verbatim>\<open>AttributeError\<close> at \<^verbatim>\<open>doc.type\<close>.\<close>

fun collect_patient_names ::
  "(pyval \<times> string) list \<Rightarrow> doc_attrs list \<Rightarrow> error + (pyval \<times> string) list" where
  "collect_patient_names patient_names [] = Inr patient_names"
| "collect_patient_names patient_names (doc # documents) =
     (case patient_name_attr doc of
        Present (Some name) \<Rightarrow>
          if name \<noteq> [] then
            (case type_attr doc of
               Absent \<Rightarrow> Inl (AttributeError ''type'')
             | Present t \<Rightarrow>
                 collect_patient_names (dict_set patient_names (description_key t) name) documents)
          else collect_patient_names patient_names documents
      | _ \<Rightarrow> collect_patient_names patient_names documents)"

text \<open>The consistency check: \<^verbatim>\<open>len(set(patient_names.values())) > 1\<close> counts the distinct
  names.\<close>

definition check_consistency :: "doc_attrs list \<Rightarrow> error + discrepancy list" where
  "check_consistency documents =
     (if length documents > 1 then
        (case collect_patient_names [] documents of
           Inl e \<Rightarrow> Inl e
         | Inr patient_names \<Rightarrow>
             if length (remdups (map snd patient_names)) > 1
             then Inr [\<lparr>field = ''patient_name'',
                        message = ''Patient name mismatch across documents'',
                        details = patient_names\<rparr>]
             else Inr [])
      else Inr [])"

text \<open>\<^verbatim>\<open>_validate_claim\<close>.\<close>

definition validate_claim :: "DocumentType list \<Rightarrow> doc_attrs list \<Rightarrow> error + ClaimValidation" where
  "validate_claim required documents =
     (let missing_docs =
            map describe (filter (\<lambda>doc_type. doc_type \<notin> set (found_types documents)) required)
      in case check_consistency documents of
           Inl e \<Rightarrow> Inl e
         | Inr found \<Rightarrow>
             Inr \<lparr>missing_documents = missing_docs,
                  discrepancies = found,
                  is_valid = (length missing_docs = 0 \<and> length found = 0)\<rparr>)"

subsection \<open>Decision engine\<close>

text \<open>\<^verbatim>\<open>float(doc.total_amount)\<close>; \<open>None\<close> is the \<^verbatim>\<open>ValueError\<close> or \<^verbatim>\<open>TypeError\<close> that the
  loop answers with \<^verbatim>\<open>continue\<close>.\<close>

fun py_float :: "(string \<Rightarrow> rat option) \<Rightarrow> pyval \<Rightarrow> rat option" where
  "py_float parse (PyNum r) = Some r"
| "py_float parse (PyStr s) = parse s"
| "py_float parse PyNone = None"
| "py_float parse (PyDocType t) = None"
| "py_float parse (PyList xs) = None"
| "py_float parse (PyDict d) = None"

text \<open>The loop of \<^verbatim>\<open>_calculate_total_amount\<close>, \<open>tot\<close> the sum so far.\<close>

fun total_loop :: "(string \<Rightarrow> rat option) \<Rightarrow> rat \<Rightarrow> doc_attrs list \<Rightarrow> rat" where
  "total_loop parse tot [] = tot"
| "total_loop parse tot (doc # documents) =
     (case total_amount_attr doc of
        Present v \<Rightarrow>
          if v \<noteq> PyNone then
            (case py_float parse v of
               Some x \<Rightarrow> total_loop parse (tot + x) documents
             | None \<Rightarrow> total_loop parse tot documents)
          else total_loop parse tot documents
      | Absent \<Rightarrow> total_loop parse tot documents)"

definition calculate_total_amount :: "(string \<Rightarrow> rat option) \<Rightarrow> doc_attrs list \<Rightarrow> rat" where
  "calculate_total_amount parse documents = total_loop parse 0 documents"

text \<open>\<^verbatim>\<open>_make_decision\<close>. The \<^verbatim>\<open>except\<close> branch of the source has no counterpart: nothing
  in the modelled \<^verbatim>\<open>try\<close> body raises.\<close>

definition make_decision ::
  "(string \<Rightarrow> rat option) \<Rightarrow> doc_attrs list \<Rightarrow> ClaimValidation \<Rightarrow> ClaimDecision" where
  "make_decision parse documents v =
     (if missing_documents v \<noteq> [] then
        \<lparr>status = rejected,
         reason = ''Missing required documents: '' @ py_join '', '' (missing_documents v),
         amount_approved = 0,
         amount_rejected = calculate_total_amount parse documents\<rparr>
      else if discrepancies v \<noteq> [] then
        \<lparr>status = pending,
         reason = ''Data discrepancies found, requires manual review'',
         amount_approved = 0,
         amount_rejected = 0\<rparr>
      else
        (let total_amount = calculate_total_amount parse documents
         in if total_amount \<le> 10000 then
              \<lparr>status = approved,
               reason = ''Claim meets all requirements'',
               amount_approved = total_amount,
               amount_rejected = 0\<rparr>
            else
              \<lparr>status = pending,
               reason = ''Claim amount exceeds automatic approval limit'',
               amount_approved = 0,
               amount_rejected = 0\<rparr>))"

record ProcessedClaim =
  documents :: "ClaimDocument list"
  validation :: ClaimValidation
  decision :: ClaimDecision

text \<open>\<^verbatim>\<open>process_claim\<close>. The \<^verbatim>\<open>metadata\<close> argument of the source is not a field of
  \<^verbatim>\<open>ProcessedClaim\<close> and is not kept.\<close>

definition process_claim :: "collaborators \<Rightarrow> path list \<Rightarrow> error + ProcessedClaim" where
  "process_claim env file_paths =
     (let classified_docs = classify_documents env file_paths
      in case process_documents env classified_docs of
           Inl e \<Rightarrow> Inl e
         | Inr processed_docs \<Rightarrow>
             (case validate_claim (required_docs env) (map (attrs_of env) processed_docs) of
                Inl e \<Rightarrow> Inl e
              | Inr v \<Rightarrow>
                  Inr \<lparr>documents = processed_docs,
                       validation = v,
                       decision = make_decision (float_of_str env)
                                    (map (attrs_of env) processed_docs) v\<rparr>))"

subsection \<open>Notions used to state the properties\<close>

text \<open>The attributes of an instance of one of the five models whose field values are
  \<open>fs\<close>: \<^verbatim>\<open>hasattr\<close> holds of the declared fields and of no other name.\<close>

definition model_attrs :: "DocumentType \<Rightarrow> dict \<Rightarrow> doc_attrs" where
  "model_attrs m fs =
     \<lparr>type_attr = Present m,
      patient_name_attr =
        (if has_key (model_fields m) ''patient_name''
         then Present (case map_of fs ''patient_name'' of Some (PyStr s) \<Rightarrow> Some s | _ \<Rightarrow> None)
         else Absent),
      total_amount_attr =
        (if has_key (model_fields m) ''total_amount''
         then Present (case map_of fs ''total_amount'' of Some v \<Rightarrow> v | None \<Rightarrow> PyNone)
         else Absent)\<rparr>"

text \<open>What \<^verbatim>\<open>hasattr\<close> gives on the documents the orchestrator builds. A
  \<^verbatim>\<open>ClaimDocument\<close> is a root model: its one field is \<^verbatim>\<open>root\<close>, and \<^verbatim>\<open>type\<close>,
  \<^verbatim>\<open>patient_name\<close> and \<^verbatim>\<open>total_amount\<close> are fields of the model under \<^verbatim>\<open>root\<close>, not
  attributes of the document.\<close>

definition ClaimDocument_attrs :: "ClaimDocument \<Rightarrow> doc_attrs" where
  "ClaimDocument_attrs doc =
     \<lparr>type_attr = Absent, patient_name_attr = Absent, total_amount_attr = Absent\<rparr>"


subsection \<open>A concrete setting for the examples\<close>

text \<open>What a bill agent returns for a bill it could read, and the document
  \<^verbatim>\<open>ClaimDocument.parse_obj\<close> makes of it.\<close>

definition example_bill :: dict where
  "example_bill =
     [(''type'', PyDocType BILL),
      (''hospital_name'', PyStr ''General Hospital''),
      (''total_amount'', PyNum 250),
      (''date_of_service'', PyStr ''2024-04-10'')]"

definition example_bill_document :: ClaimDocument where
  "example_bill_document =
     ClaimDocument BILL
       [(''type'', PyDocType BILL),
        (''hospital_name'', PyStr ''General Hospital''),
        (''total_amount'', PyNum 250),
        (''date_of_service'', PyStr ''2024-04-10''),
        (''patient_name'', PyNone),
        (''patient_id'', PyNone),
        (''items'', PyList []),
        (''diagnosis_codes'', PyList []),
        (''procedure_codes'', PyList [])]"

text \<open>A bill document that names its patient, and an ID card document.\<close>

definition example_named_bill :: "string \<Rightarrow> ClaimDocument" where
  "example_named_bill name =
     ClaimDocument BILL
       [(''type'', PyDocType BILL),
        (''hospital_name'', PyStr ''General Hospital''),
        (''total_amount'', PyNum 250),
        (''date_of_service'', PyStr ''2024-04-10''),
        (''patient_name'', PyStr name),
        (''patient_id'', PyNone),
        (''items'', PyList []),
        (''diagnosis_codes'', PyList []),
        (''procedure_codes'', PyList [])]"

definition example_id_card_document :: ClaimDocument where
  "example_id_card_document =
     ClaimDocument ID_CARD
       [(''type'', PyDocType ID_CARD),
        (''insurance_provider'', PyStr ''Aetna''),
        (''policy_number'', PyStr ''P-1''),
        (''group_number'', PyNone),
        (''member_id'', PyStr ''M-1''),
        (''member_name'', PyStr ''John Doe''),
        (''relationship'', PyStr ''self''),
        (''effective_date'', PyNone),
        (''expiration_date'', PyNone)]"

text \<open>Collaborators for the examples: every file has text, the backend answers
  \<^verbatim>\<open>id card\<close> to every classification prompt, the bill agent returns \<open>example_bill\<close>
  and every other agent raises, every file has 1024 bytes, field validation accepts every
  value, and the attributes of a document are those of \<open>ClaimDocument_attrs\<close>.\<close>

definition example_collaborators :: collaborators where
  "example_collaborators =
     \<lparr>extract_text = (\<lambda>p. Inr ''Member ID: M-1''),
      call_llm = (\<lambda>prompt. Inr ''id card''),
      agents = (\<lambda>t. if t = UNKNOWN then None
                     else if t = BILL then Some (\<lambda>p. Inr example_bill)
                     else Some (\<lambda>p. Inl (ValueError ''Missing required fields in ID card: member_name''))),
      st_size = (\<lambda>p. Inr 1024),
      coerce = (\<lambda>m k v. Some v),
      attrs_of = ClaimDocument_attrs,
      float_of_str = (\<lambda>s. None),
      required_docs = [BILL, ID_CARD]\<rparr>"

section \<open>Properties\<close>

subsection \<open>Classifier\<close>

text \<open>
  Claim C5. Classification never raises: \<^verbatim>\<open>classify_document\<close> always returns a document
  type. When text extraction raises, when the backend call raises, or when the stripped,
  lower-cased response is not a key of the synonym table, the type it returns is
  \<open>UNKNOWN\<close>.
\<close>

theorem C5_classification_degrades_to_unknown:
  "(\<exists>t. classify_document extract llm file_path = Inr t) \<and>
   (\<forall>e. extract file_path = Inl e \<longrightarrow> classify_document extract llm file_path = Inr UNKNOWN) \<and>
   (\<forall>text e. extract file_path = Inr text \<and>
        llm (create_classification_prompt (path_name file_path) (take 2000 text)) = Inl e \<longrightarrow>
        classify_document extract llm file_path = Inr UNKNOWN) \<and>
   (\<forall>text response. extract file_path = Inr text \<and>
        llm (create_classification_prompt (path_name file_path) (take 2000 text)) = Inr response \<and>
        map_of type_mapping (py_lower (py_strip response)) = None \<longrightarrow>
        classify_document extract llm file_path = Inr UNKNOWN)"
  by (simp add: classify_document_def classify_try_def parse_classification_response_def
           split: sum.split)

theorem C5_classification_witness:
  "classify_document (\<lambda>p. Inl (AgentError ''Failed to extract text'')) (\<lambda>q. Inr ''bill'') ''error.pdf''
     = Inr UNKNOWN \<and>
   classify_document (\<lambda>p. Inr ''Sample hospital bill content'') (\<lambda>q. Inl (BackendError ''timeout''))
     ''test_bill.pdf'' = Inr UNKNOWN \<and>
   classify_document (\<lambda>p. Inr ''Some random content'') (\<lambda>q. Inr ''invalid'') ''unknown.txt''
     = Inr UNKNOWN"
proof -
  have a: "classify_document (\<lambda>p. Inl (AgentError ''Failed to extract text'')) (\<lambda>q. Inr ''bill'')
             ''error.pdf'' = Inr UNKNOWN"
    using C5_classification_degrades_to_unknown
            [of "\<lambda>p. Inl (AgentError ''Failed to extract text'')" "\<lambda>q. Inr ''bill''" "''error.pdf''"]
    by simp
  have b: "classify_document (\<lambda>p. Inr ''Sample hospital bill content'')
             (\<lambda>q. Inl (BackendError ''timeout'')) ''test_bill.pdf'' = Inr UNKNOWN"
    using C5_classification_degrades_to_unknown
            [of "\<lambda>p. Inr ''Sample hospital bill content''" "\<lambda>q. Inl (BackendError ''timeout'')"
                "''test_bill.pdf''"]
    by simp
  have n: "map_of type_mapping (py_lower (py_strip ''invalid'')) = None"
    by (simp add: type_mapping_def py_lower_def py_strip_def is_space_def lower_char_def)
  have c: "classify_document (\<lambda>p. Inr ''Some random content'') (\<lambda>q. Inr ''invalid'')
             ''unknown.txt'' = Inr UNKNOWN"
    using C5_classification_degrades_to_unknown
            [of "\<lambda>p. Inr ''Some random content''" "\<lambda>q. Inr ''invalid''" "''unknown.txt''"] n
    by simp
  show ?thesis using a b c by simp
qed

subsection \<open>Validator\<close>

lemma validate_claim_is_valid:
  "validate_claim req docs = Inr v \<Longrightarrow>
   is_valid v \<longleftrightarrow> missing_documents v = [] \<and> discrepancies v = []"
  by (auto simp: validate_claim_def Let_def split: sum.splits)

lemma collect_patient_names_typed:
  "\<forall>d \<in> set docs. type_attr d \<noteq> Absent \<Longrightarrow> \<exists>names. collect_patient_names acc docs = Inr names"
proof (induction docs arbitrary: acc)
  case Nil
  then show ?case by simp
next
  case (Cons d docs)
  then show ?case
    by (cases "type_attr d") (auto split: attr.splits option.splits)
qed

lemma validate_claim_typed:
  "\<forall>d \<in> set docs. type_attr d \<noteq> Absent \<Longrightarrow> \<exists>v. validate_claim req docs = Inr v"
  using collect_patient_names_typed [of docs "[]"]
  by (auto simp: validate_claim_def check_consistency_def Let_def split: sum.splits)

text \<open>
  Claim C4. Whenever the validator returns a result, \<^verbatim>\<open>is_valid\<close> holds if and only if
  the list of missing required documents and the list of discrepancies are both empty;
  and it returns a result for every list of documents that have the attribute \<^verbatim>\<open>type\<close>.
\<close>

theorem C4_is_valid_iff_both_empty:
  "(\<forall>v. validate_claim req docs = Inr v \<longrightarrow>
        (is_valid v \<longleftrightarrow> missing_documents v = [] \<and> discrepancies v = [])) \<and>
   ((\<forall>d \<in> set docs. type_attr d \<noteq> Absent) \<longrightarrow> (\<exists>v. validate_claim req docs = Inr v))"
  using validate_claim_is_valid validate_claim_typed by blast


theorem C4_is_valid_witness:
  "validate_claim [BILL, ID_CARD]
     [model_attrs BILL [(''patient_name'', PyStr ''John Doe'')],
      model_attrs ID_CARD [(''member_name'', PyStr ''John Doe'')]]
   = Inr \<lparr>missing_documents = [], discrepancies = [], is_valid = True\<rparr> \<and>
   validate_claim [BILL, ID_CARD] [model_attrs BILL [(''patient_name'', PyStr ''John Doe'')]]
   = Inr \<lparr>missing_documents = [''insurance ID card''], discrepancies = [], is_valid = False\<rparr> \<and>
   validate_claim [BILL, ID_CARD]
     [model_attrs BILL [(''patient_name'', PyStr ''John Doe'')],
      model_attrs ID_CARD [],
      model_attrs DISCHARGE_SUMMARY [(''patient_name'', PyStr ''Jon Doe'')]]
   = Inr \<lparr>missing_documents = [],
          discrepancies = [\<lparr>field = ''patient_name'',
                            message = ''Patient name mismatch across documents'',
                            details = [(PyStr ''medical bill'', ''John Doe''),
                                       (PyStr ''discharge summary'', ''Jon Doe'')]\<rparr>],
          is_valid = False\<rparr>"
proof -
  let ?a = "[model_attrs BILL [(''patient_name'', PyStr ''John Doe'')],
      model_attrs ID_CARD [(''member_name'', PyStr ''John Doe'')]]"
  let ?b = "[model_attrs BILL [(''patient_name'', PyStr ''John Doe'')]]"
  let ?c = "[model_attrs BILL [(''patient_name'', PyStr ''John Doe'')],
      model_attrs ID_CARD [],
      model_attrs DISCHARGE_SUMMARY [(''patient_name'', PyStr ''Jon Doe'')]]"
  have ta: "\<forall>d \<in> set ?a. type_attr d \<noteq> Absent" by (simp add: model_attrs_def)
  have tb: "\<forall>d \<in> set ?b. type_attr d \<noteq> Absent" by (simp add: model_attrs_def)
  have tc: "\<forall>d \<in> set ?c. type_attr d \<noteq> Absent" by (simp add: model_attrs_def)
  note defs = validate_claim_def check_consistency_def found_types_def describe_def
    description_key_def doc_descriptions_def model_attrs_def has_key_def
    BillDocument_fields_def IdCardDocument_fields_def DischargeSummaryDocument_fields_def
  from C4_is_valid_iff_both_empty [of "[BILL, ID_CARD]" ?a] ta
  obtain va where va: "validate_claim [BILL, ID_CARD] ?a = Inr va"
    and ia: "is_valid va \<longleftrightarrow> missing_documents va = [] \<and> discrepancies va = []" by blast
  have ma: "missing_documents va = [] \<and> discrepancies va = []"
    using va by (auto simp: defs)
  from C4_is_valid_iff_both_empty [of "[BILL, ID_CARD]" ?b] tb
  obtain vb where vb: "validate_claim [BILL, ID_CARD] ?b = Inr vb"
    and ib: "is_valid vb \<longleftrightarrow> missing_documents vb = [] \<and> discrepancies vb = []" by blast
  have mb: "missing_documents vb = [''insurance ID card''] \<and> discrepancies vb = []"
    using vb by (auto simp: defs)
  from C4_is_valid_iff_both_empty [of "[BILL, ID_CARD]" ?c] tc
  obtain vc where vc: "validate_claim [BILL, ID_CARD] ?c = Inr vc"
    and ic: "is_valid vc \<longleftrightarrow> missing_documents vc = [] \<and> discrepancies vc = []" by blast
  have mc: "missing_documents vc = [] \<and>
            discrepancies vc = [\<lparr>field = ''patient_name'',
                            message = ''Patient name mismatch across documents'',
                            details = [(PyStr ''medical bill'', ''John Doe''),
                                       (PyStr ''discharge summary'', ''Jon Doe'')]\<rparr>]"
    using vc by (auto simp: defs)
  have "va = \<lparr>missing_documents = [], discrepancies = [], is_valid = True\<rparr>"
    using ia ma by (cases va) simp
  moreover have "vb = \<lparr>missing_documents = [''insurance ID card''], discrepancies = [],
                         is_valid = False\<rparr>"
    using ib mb by (cases vb) simp
  moreover have "vc = \<lparr>missing_documents = [],
          discrepancies = [\<lparr>field = ''patient_name'',
                            message = ''Patient name mismatch across documents'',
                            details = [(PyStr ''medical bill'', ''John Doe''),
                                       (PyStr ''discharge summary'', ''Jon Doe'')]\<rparr>],
          is_valid = False\<rparr>"
    using ic mc by (cases vc) simp
  ultimately show ?thesis using va vb vc by (intro conjI) (simp_all only:)
qed

subsection \<open>Orchestrator: a document that fails, a document that is skipped\<close>

lemma validate_fields_error_document:
  "m \<in> set union_members \<Longrightarrow>
   validate_fields c m (model_fields m) (error_document t p e) = None"
  by (auto simp: union_members_def error_document_def BillDocument_fields_def
        DischargeSummaryDocument_fields_def IdCardDocument_fields_def
        PrescriptionDocument_fields_def LabReportDocument_fields_def
      split: option.splits)

lemma first_valid_none:
  "\<forall>m \<in> set ms. validate_fields c m (model_fields m) obj = None \<Longrightarrow> first_valid c ms obj = None"
  by (induction ms) simp_all

lemma parse_obj_error_document:
  "ClaimDocument_parse_obj c (error_document t p e) =
     Inl (ValidationError ''validation errors for ClaimDocument'')"
  by (simp add: ClaimDocument_parse_obj_def first_valid_none validate_fields_error_document)

lemma process_one_raises:
  "doc_type \<noteq> UNKNOWN \<Longrightarrow> agents env doc_type = Some agent \<Longrightarrow> agent file_path = Inl e \<Longrightarrow>
   process_one env (file_path, doc_type) =
     Inl (ValidationError ''validation errors for ClaimDocument'')"
  by (simp add: process_one_def process_try_def parse_obj_error_document)

lemma process_loop_raises:
  "\<exists>item \<in> set docs. \<exists>e. process_one env item = Inl e \<Longrightarrow>
   \<exists>e'. process_loop env acc docs = Inl e'"
proof (induction docs arbitrary: acc)
  case Nil
  then show ?case by simp
next
  case (Cons item docs)
  show ?case
  proof (cases "process_one env item")
    case (Inl e)
    then show ?thesis by simp
  next
    case (Inr r)
    with Cons.prems have "\<exists>item \<in> set docs. \<exists>e. process_one env item = Inl e" by auto
    then show ?thesis using Inr Cons.IH by (cases r) simp_all
  qed
qed

lemma process_documents_raises:
  "(file_path, doc_type) \<in> set docs \<Longrightarrow> doc_type \<noteq> UNKNOWN \<Longrightarrow>
   agents env doc_type = Some agent \<Longrightarrow> agent file_path = Inl e \<Longrightarrow>
   \<exists>e'. process_documents env docs = Inl e'"
  unfolding process_documents_def
  by (rule process_loop_raises) (metis process_one_raises)

lemma process_claim_raises:
  "(file_path, doc_type) \<in> set (classify_documents env file_paths) \<Longrightarrow> doc_type \<noteq> UNKNOWN \<Longrightarrow>
   agents env doc_type = Some agent \<Longrightarrow> agent file_path = Inl e \<Longrightarrow>
   \<exists>e'. process_claim env file_paths = Inl e'"
  using process_documents_raises [of file_path doc_type "classify_documents env file_paths" env agent e]
  by (auto simp: process_claim_def Let_def)

text \<open>
  Claim C1 says that a document whose extraction raises becomes a failure outcome, that
  the other documents keep theirs and that no exception reaches the caller. The code does
  not do that: the \<^verbatim>\<open>except\<close> branch builds its failure outcome with
  \<^verbatim>\<open>ClaimDocument.parse_obj\<close>, which no dictionary of \<^verbatim>\<open>type\<close>, \<^verbatim>\<open>file_name\<close>, \<^verbatim>\<open>error\<close> and
  \<^verbatim>\<open>status\<close> passes, so the validation error leaves the loop and \<^verbatim>\<open>process_claim\<close>. Here
  the second of three documents raises, and a batch of one document raises.
\<close>

theorem C1_failure_escapes:
  "process_documents example_collaborators
     [(''bill1.pdf'', BILL), (''card.txt'', ID_CARD), (''bill2.pdf'', BILL)]
   = Inl (ValidationError ''validation errors for ClaimDocument'') \<and>
   process_claim example_collaborators [''card.txt'']
   = Inl (ValidationError ''validation errors for ClaimDocument'')"
proof -
  have one: "process_one example_collaborators (''bill1.pdf'', BILL) = Inr (Some example_bill_document)"
    by (simp add: process_one_def process_try_def example_collaborators_def example_bill_def
          example_bill_document_def ClaimDocument_parse_obj_def union_members_def
          BillDocument_fields_def)
  have two: "process_one example_collaborators (''card.txt'', ID_CARD) =
               Inl (ValidationError ''validation errors for ClaimDocument'')"
    by (rule process_one_raises [where agent = "\<lambda>p. Inl (ValueError ''Missing required fields in ID card: member_name'')"])
       (simp_all add: example_collaborators_def)
  have a: "process_documents example_collaborators
     [(''bill1.pdf'', BILL), (''card.txt'', ID_CARD), (''bill2.pdf'', BILL)]
   = Inl (ValidationError ''validation errors for ClaimDocument'')"
    by (simp add: process_documents_def one two)
  have cl: "classify_documents example_collaborators [''card.txt''] = [(''card.txt'', ID_CARD)]"
    by (simp add: classify_documents_def classify_single_doc_def classify_document_def
          classify_try_def parse_classification_response_def example_collaborators_def
          type_mapping_def py_lower_def py_strip_def is_space_def lower_char_def)
  have b: "process_claim example_collaborators [''card.txt'']
   = Inl (ValidationError ''validation errors for ClaimDocument'')"
    by (simp add: process_claim_def cl process_documents_def two)
  show ?thesis by (intro conjI a b)
qed

lemma process_one_unknown: "process_one env (file_path, UNKNOWN) = Inr None"
  by (simp add: process_one_def)

lemma process_one_known:
  "doc_type \<noteq> UNKNOWN \<Longrightarrow> agents env doc_type \<noteq> None \<Longrightarrow>
   process_one env (file_path, doc_type) \<noteq> Inr None"
  by (auto simp: process_one_def split: sum.splits)

lemma process_loop_outcomes:
  "process_loop env acc docs = Inr out \<Longrightarrow> \<forall>t. t \<noteq> UNKNOWN \<longrightarrow> agents env t \<noteq> None \<Longrightarrow>
   \<exists>new. out = acc @ new \<and>
     map (\<lambda>d. Inr (Some d)) new = map (process_one env) (filter (\<lambda>item. snd item \<noteq> UNKNOWN) docs)"
proof (induction docs arbitrary: acc)
  case Nil
  then show ?case by simp
next
  case (Cons item docs)
  obtain p t where item: "item = (p, t)" by (cases item)
  show ?case
  proof (cases "process_one env item")
    case (Inl e)
    with Cons.prems show ?thesis by simp
  next
    case (Inr r)
    show ?thesis
    proof (cases r)
      case None
      with Inr item Cons.prems(2) have t: "t = UNKNOWN"
        using process_one_known [of t env p] by auto
      from None Inr Cons.prems have "process_loop env acc docs = Inr out" by simp
      from Cons.IH [OF this Cons.prems(2)] show ?thesis using t item by simp
    next
      case (Some doc)
      with Inr item have t: "t \<noteq> UNKNOWN" using process_one_unknown [of env p] by auto
      from Some Inr Cons.prems have "process_loop env (acc @ [doc]) docs = Inr out" by simp
      from Cons.IH [OF this Cons.prems(2)] obtain new where
        n: "out = (acc @ [doc]) @ new"
           "map (\<lambda>d. Inr (Some d)) new =
            map (process_one env) (filter (\<lambda>item. snd item \<noteq> UNKNOWN) docs)"
        by blast
      have "out = acc @ (doc # new)" using n(1) by simp
      moreover have "map (\<lambda>d. Inr (Some d)) (doc # new) =
            map (process_one env) (filter (\<lambda>item. snd item \<noteq> UNKNOWN) (item # docs))"
        using n(2) t item Inr Some by simp
      ultimately show ?thesis by blast
    qed
  qed
qed

text \<open>
  Claim C2, as the code has it. When \<^verbatim>\<open>_process_documents\<close> returns, its list holds one
  outcome for each input document whose type is not \<open>UNKNOWN\<close>, in the order of the input:
  the i-th entry is the outcome of the i-th such document. Its length is the number of
  those documents, at most the number of inputs. A document classified \<open>UNKNOWN\<close> adds
  nothing to the list.
\<close>

theorem C2_one_outcome_per_classified_document:
  "((\<forall>t. t \<noteq> UNKNOWN \<longrightarrow> agents env t \<noteq> None) \<and> process_documents env docs = Inr out \<longrightarrow>
      map (\<lambda>d. Inr (Some d)) out =
        map (process_one env) (filter (\<lambda>item. snd item \<noteq> UNKNOWN) docs) \<and>
      length out = length (filter (\<lambda>item. snd item \<noteq> UNKNOWN) docs) \<and>
      length out \<le> length docs) \<and>
   (\<forall>item \<in> set docs. snd item = UNKNOWN \<longrightarrow> process_one env item = Inr None)"
proof (intro conjI impI ballI)
  assume h: "(\<forall>t. t \<noteq> UNKNOWN \<longrightarrow> agents env t \<noteq> None) \<and> process_documents env docs = Inr out"
  then have "process_loop env [] docs = Inr out" by (simp add: process_documents_def)
  from process_loop_outcomes [OF this] h
  show m: "map (\<lambda>d. Inr (Some d)) out =
        map (process_one env) (filter (\<lambda>item. snd item \<noteq> UNKNOWN) docs)"
    by auto
  from m have "length (map (\<lambda>d. (Inr (Some d) :: error + ClaimDocument option)) out) =
        length (map (process_one env) (filter (\<lambda>item. snd item \<noteq> UNKNOWN) docs))"
    by simp
  then show l: "length out = length (filter (\<lambda>item. snd item \<noteq> UNKNOWN) docs)" by simp
  show "length out \<le> length docs" unfolding l by (rule length_filter_le)
next
  fix item :: "path \<times> DocumentType"
  assume "snd item = UNKNOWN"
  then show "process_one env item = Inr None"
    by (cases item) (simp add: process_one_unknown)
qed

text \<open>
  Claim C2 as stated fails: of two input documents, one of them \<open>UNKNOWN\<close>, the outcome
  list holds one entry, and nothing in it tells of the other document.
\<close>

theorem C2_unknown_dropped_counterexample:
  "process_documents example_collaborators [(''bill.pdf'', BILL), (''notes.txt'', UNKNOWN)]
   = Inr [example_bill_document]"
  by (simp add: process_documents_def process_one_def process_try_def example_collaborators_def
        example_bill_def example_bill_document_def ClaimDocument_parse_obj_def union_members_def
        BillDocument_fields_def)

theorem C2_outcomes_witness:
  "map (\<lambda>d. Inr (Some d)) [example_bill_document, example_bill_document] =
     map (process_one example_collaborators) [(''bill.pdf'', BILL), (''bill2.pdf'', BILL)] \<and>
   process_one example_collaborators (''notes.txt'', UNKNOWN) = Inr None \<and>
   process_documents example_collaborators
     [(''bill.pdf'', BILL), (''notes.txt'', UNKNOWN), (''bill2.pdf'', BILL)]
   = Inr [example_bill_document, example_bill_document]"
proof -
  let ?docs = "[(''bill.pdf'', BILL), (''notes.txt'', UNKNOWN), (''bill2.pdf'', BILL)]"
  let ?out = "[example_bill_document, example_bill_document]"
  have run: "process_documents example_collaborators ?docs = Inr ?out"
    by (simp add: process_documents_def process_one_def process_try_def example_collaborators_def
        example_bill_def example_bill_document_def ClaimDocument_parse_obj_def union_members_def
        BillDocument_fields_def)
  have ag: "\<forall>t. t \<noteq> UNKNOWN \<longrightarrow> agents example_collaborators t \<noteq> None"
    by (simp add: example_collaborators_def)
  have f: "filter (\<lambda>item. snd item \<noteq> UNKNOWN) ?docs = [(''bill.pdf'', BILL), (''bill2.pdf'', BILL)]"
    by simp
  note r = C2_one_outcome_per_classified_document [of example_collaborators ?docs ?out]
  have a: "map (\<lambda>d. Inr (Some d)) ?out =
     map (process_one example_collaborators) [(''bill.pdf'', BILL), (''bill2.pdf'', BILL)]"
    using r [THEN conjunct1, THEN mp, OF conjI [OF ag run], THEN conjunct1] unfolding f .
  have b: "process_one example_collaborators (''notes.txt'', UNKNOWN) = Inr None"
    using r [THEN conjunct2, THEN bspec, of "(''notes.txt'', UNKNOWN)"] by simp
  show ?thesis by (intro conjI a b run)
qed

subsection \<open>Validator and decision engine on the orchestrator's documents\<close>

lemma total_loop_root_models: "total_loop parse tot (map ClaimDocument_attrs docs) = tot"
  by (induction docs arbitrary: tot) (simp_all add: ClaimDocument_attrs_def)

lemma calculate_total_amount_root_models:
  "calculate_total_amount parse (map ClaimDocument_attrs docs) = 0"
  by (simp add: calculate_total_amount_def total_loop_root_models)

lemma found_types_root_models: "found_types (map ClaimDocument_attrs docs) = []"
  by (induction docs) (simp_all add: found_types_def ClaimDocument_attrs_def)

lemma collect_patient_names_root_models:
  "collect_patient_names names (map ClaimDocument_attrs docs) = Inr names"
  by (induction docs arbitrary: names) (simp_all add: ClaimDocument_attrs_def)

lemma check_consistency_root_models: "check_consistency (map ClaimDocument_attrs docs) = Inr []"
  by (simp add: check_consistency_def collect_patient_names_root_models)

lemma validate_claim_root_models:
  "validate_claim req (map ClaimDocument_attrs docs) =
     Inr \<lparr>missing_documents = map describe req, discrepancies = [], is_valid = (req = [])\<rparr>"
  by (simp add: validate_claim_def check_consistency_root_models found_types_root_models)

lemma make_decision_root_models:
  "req \<noteq> [] \<Longrightarrow>
   make_decision parse (map ClaimDocument_attrs docs)
     \<lparr>missing_documents = map describe req, discrepancies = [], is_valid = False\<rparr> =
   \<lparr>status = rejected,
    reason = ''Missing required documents: '' @ py_join '', '' (map describe req),
    amount_approved = 0, amount_rejected = 0\<rparr>"
  by (simp add: make_decision_def calculate_total_amount_root_models)

text \<open>
  Claim C3 says that the rejected or approved amount is the sum of the bill totals and
  that the rules after the first are reached when no required document is missing. On the
  documents the orchestrator builds the code does not do that: no amount and no type is
  read from a \<^verbatim>\<open>ClaimDocument\<close>, so the total is 0 and both required documents count as
  missing. A bill and an ID card are rejected, and two bills of 250 are rejected with
  \<^verbatim>\<open>amount_rejected\<close> 0 and a reason that lists the bill as missing.
\<close>

theorem C3_bill_totals_never_read:
  "calculate_total_amount (\<lambda>s. None)
     (map ClaimDocument_attrs [example_bill_document, example_bill_document]) = 0 \<and>
   validate_claim [BILL, ID_CARD]
     (map ClaimDocument_attrs [example_bill_document, example_id_card_document])
   = Inr \<lparr>missing_documents = [''medical bill'', ''insurance ID card''], discrepancies = [],
          is_valid = False\<rparr> \<and>
   make_decision (\<lambda>s. None)
     (map ClaimDocument_attrs [example_bill_document, example_id_card_document])
     \<lparr>missing_documents = [''medical bill'', ''insurance ID card''], discrepancies = [],
      is_valid = False\<rparr>
   = \<lparr>status = rejected,
      reason = ''Missing required documents: medical bill, insurance ID card'',
      amount_approved = 0, amount_rejected = 0\<rparr> \<and>
   process_claim (example_collaborators\<lparr>call_llm := \<lambda>prompt. Inr ''bill''\<rparr>)
     [''bill1.pdf'', ''bill2.pdf'']
   = Inr \<lparr>documents = [example_bill_document, example_bill_document],
          validation = \<lparr>missing_documents = [''medical bill'', ''insurance ID card''],
                         discrepancies = [], is_valid = False\<rparr>,
          decision = \<lparr>status = rejected,
                       reason = ''Missing required documents: medical bill, insurance ID card'',
                       amount_approved = 0, amount_rejected = 0\<rparr>\<rparr>"
proof -
  let ?env = "example_collaborators\<lparr>call_llm := \<lambda>prompt. Inr ''bill''\<rparr>"
  have d: "map describe [BILL, ID_CARD] = [''medical bill'', ''insurance ID card'']"
    by (simp add: describe_def doc_descriptions_def)
  have a: "calculate_total_amount (\<lambda>s. None)
     (map ClaimDocument_attrs [example_bill_document, example_bill_document]) = 0"
    by (rule calculate_total_amount_root_models)
  have b: "validate_claim [BILL, ID_CARD]
     (map ClaimDocument_attrs [example_bill_document, example_id_card_document])
   = Inr \<lparr>missing_documents = [''medical bill'', ''insurance ID card''], discrepancies = [],
          is_valid = False\<rparr>"
    using validate_claim_root_models [of "[BILL, ID_CARD]"
            "[example_bill_document, example_id_card_document]"]
    by (simp only: d) simp
  have c: "make_decision (\<lambda>s. None)
     (map ClaimDocument_attrs [example_bill_document, example_id_card_document])
     \<lparr>missing_documents = [''medical bill'', ''insurance ID card''], discrepancies = [],
      is_valid = False\<rparr>
   = \<lparr>status = rejected,
      reason = ''Missing required documents: medical bill, insurance ID card'',
      amount_approved = 0, amount_rejected = 0\<rparr>"
    using make_decision_root_models [of "[BILL, ID_CARD]" "\<lambda>s. None"
            "[example_bill_document, example_id_card_document]"]
    by (simp only: d) simp
  have cl: "classify_documents ?env [''bill1.pdf'', ''bill2.pdf''] =
              [(''bill1.pdf'', BILL), (''bill2.pdf'', BILL)]"
    by (simp add: classify_documents_def classify_single_doc_def classify_document_def
          classify_try_def parse_classification_response_def example_collaborators_def
          type_mapping_def py_lower_def py_strip_def is_space_def lower_char_def)
  have one: "\<And>p. process_one ?env (p, BILL) = Inr (Some example_bill_document)"
    by (simp add: process_one_def process_try_def example_collaborators_def example_bill_def
          example_bill_document_def ClaimDocument_parse_obj_def union_members_def
          BillDocument_fields_def)
  have pd: "process_documents ?env [(''bill1.pdf'', BILL), (''bill2.pdf'', BILL)] =
              Inr [example_bill_document, example_bill_document]"
    by (simp add: process_documents_def one)
  have env: "attrs_of ?env = ClaimDocument_attrs" "required_docs ?env = [BILL, ID_CARD]"
    "float_of_str ?env = (\<lambda>s. None)"
    by (simp_all add: example_collaborators_def)
  have v2: "validate_claim [BILL, ID_CARD]
     (map ClaimDocument_attrs [example_bill_document, example_bill_document])
   = Inr \<lparr>missing_documents = [''medical bill'', ''insurance ID card''], discrepancies = [],
          is_valid = False\<rparr>"
    using validate_claim_root_models [of "[BILL, ID_CARD]"
            "[example_bill_document, example_bill_document]"]
    by (simp only: d) simp
  have m2: "make_decision (\<lambda>s. None)
     (map ClaimDocument_attrs [example_bill_document, example_bill_document])
     \<lparr>missing_documents = [''medical bill'', ''insurance ID card''], discrepancies = [],
      is_valid = False\<rparr>
   = \<lparr>status = rejected,
      reason = ''Missing required documents: medical bill, insurance ID card'',
      amount_approved = 0, amount_rejected = 0\<rparr>"
    using make_decision_root_models [of "[BILL, ID_CARD]" "\<lambda>s. None"
            "[example_bill_document, example_bill_document]"]
    by (simp only: d) simp
  have e: "process_claim ?env [''bill1.pdf'', ''bill2.pdf'']
   = Inr \<lparr>documents = [example_bill_document, example_bill_document],
          validation = \<lparr>missing_documents = [''medical bill'', ''insurance ID card''],
                         discrepancies = [], is_valid = False\<rparr>,
          decision = \<lparr>status = rejected,
                       reason = ''Missing required documents: medical bill, insurance ID card'',
                       amount_approved = 0, amount_rejected = 0\<rparr>\<rparr>"
    unfolding process_claim_def Let_def cl pd env by (simp only: v2 m2 sum.case)
  show ?thesis by (intro conjI a b c e)
qed

text \<open>
  Claim C9 says that two documents of one type with different patient names leave one
  entry in the dictionary of names and that the result can be valid. On the documents
  the orchestrator builds the code collects no name at all, and reports both required
  documents missing in either order of the required set: the result is not valid.
\<close>

theorem C9_names_never_collected:
  "collect_patient_names []
     (map ClaimDocument_attrs
        [example_named_bill ''John Doe'', example_named_bill ''Jon Doe'', example_id_card_document])
   = Inr [] \<and>
   validate_claim [BILL, ID_CARD]
     (map ClaimDocument_attrs
        [example_named_bill ''John Doe'', example_named_bill ''Jon Doe'', example_id_card_document])
   = Inr \<lparr>missing_documents = [''medical bill'', ''insurance ID card''], discrepancies = [],
          is_valid = False\<rparr> \<and>
   validate_claim [ID_CARD, BILL]
     (map ClaimDocument_attrs
        [example_named_bill ''John Doe'', example_named_bill ''Jon Doe'', example_id_card_document])
   = Inr \<lparr>missing_documents = [''insurance ID card'', ''medical bill''], discrepancies = [],
          is_valid = False\<rparr>"
proof -
  let ?docs = "[example_named_bill ''John Doe'', example_named_bill ''Jon Doe'',
                example_id_card_document]"
  have a: "collect_patient_names [] (map ClaimDocument_attrs ?docs) = Inr []"
    by (rule collect_patient_names_root_models)
  have d1: "map describe [BILL, ID_CARD] = [''medical bill'', ''insurance ID card'']"
    by (simp add: describe_def doc_descriptions_def)
  have d2: "map describe [ID_CARD, BILL] = [''insurance ID card'', ''medical bill'']"
    by (simp add: describe_def doc_descriptions_def)
  have b: "validate_claim [BILL, ID_CARD] (map ClaimDocument_attrs ?docs)
   = Inr \<lparr>missing_documents = [''medical bill'', ''insurance ID card''], discrepancies = [],
          is_valid = False\<rparr>"
    using validate_claim_root_models [of "[BILL, ID_CARD]" ?docs] by (simp only: d1) simp
  have c: "validate_claim [ID_CARD, BILL] (map ClaimDocument_attrs ?docs)
   = Inr \<lparr>missing_documents = [''insurance ID card'', ''medical bill''], discrepancies = [],
          is_valid = False\<rparr>"
    using validate_claim_root_models [of "[ID_CARD, BILL]" ?docs] by (simp only: d2) simp
  show ?thesis by (intro conjI a b c)
qed

subsection \<open>The fallback pass of the extraction agents\<close>

lemma extract_with_llm_raises:
  "extract_with_llm cls create_prompt parse_response text =
     Inl (AttributeError (no_attribute cls ''_call_llm''))"
  by (simp add: extract_with_llm_def extraction_agent_call_llm_def)

lemma Bill_extract_fields_fallback_raises:
  "\<not> has_all (regex text) Bill_required_fields \<Longrightarrow>
   Bill_extract_fields regex (extract_with_llm cls create_prompt parse_response) text =
     ([text], Inl (AttributeError (no_attribute cls ''_call_llm'')))"
  by (simp add: Bill_extract_fields_def extract_with_llm_raises)

lemma IdCard_extract_fallback_raises:
  "IdCard_extract regex (extract_with_llm cls create_prompt parse_response) text =
     ([text], Inl (AttributeError (no_attribute cls ''_call_llm'')))"
  by (simp add: IdCard_extract_def extract_with_llm_raises)

lemma LabReport_extract_fallback_raises:
  "LabReport_extract now regex (extract_with_llm cls create_prompt parse_response) text =
     ([text], Inl (AttributeError (no_attribute cls ''_call_llm'')))"
  by (simp add: LabReport_extract_def extract_with_llm_raises)

text \<open>
  Claim C6 says that the record merged from both passes gives the fallback pass's value
  to every key of the fallback pass. In the code the fallback pass of an extraction agent
  raises \<^verbatim>\<open>AttributeError\<close> at \<^verbatim>\<open>self._call_llm\<close>, so \<^verbatim>\<open>extracted.update(llm_data)\<close> is not
  reached: the bill agent raises whenever the regex pass left a required field out, and
  the ID card agent raises on every text, whatever answer was to be parsed.
\<close>

theorem C6_fallback_raises_before_merge:
  "Bill_extract_fields (\<lambda>t. [(''total_amount'', PyNum 100)])
     (extract_with_llm ''BillAgent'' (\<lambda>t. t)
        (\<lambda>response. Inr [(''total_amount'', PyNum 150), (''hospital_name'', PyStr ''X'')]))
     ''Total: 100''
   = ([''Total: 100''], Inl (AttributeError (no_attribute ''BillAgent'' ''_call_llm''))) \<and>
   IdCard_extract (\<lambda>t. [(''member_name'', PyStr ''John Doe'')])
     (extract_with_llm ''IdCardAgent'' (\<lambda>t. t)
        (\<lambda>response. Inr [(''member_name'', PyStr ''John A. Doe''), (''member_id'', PyStr ''M-1'')]))
     ''Member: John Doe''
   = ([''Member: John Doe''], Inl (AttributeError (no_attribute ''IdCardAgent'' ''_call_llm'')))"
proof (intro conjI)
  show "Bill_extract_fields (\<lambda>t. [(''total_amount'', PyNum 100)])
     (extract_with_llm ''BillAgent'' (\<lambda>t. t)
        (\<lambda>response. Inr [(''total_amount'', PyNum 150), (''hospital_name'', PyStr ''X'')]))
     ''Total: 100''
   = ([''Total: 100''], Inl (AttributeError (no_attribute ''BillAgent'' ''_call_llm'')))"
    by (rule Bill_extract_fields_fallback_raises)
       (simp add: has_all_def has_key_def Bill_required_fields_def)
next
  show "IdCard_extract (\<lambda>t. [(''member_name'', PyStr ''John Doe'')])
     (extract_with_llm ''IdCardAgent'' (\<lambda>t. t)
        (\<lambda>response. Inr [(''member_name'', PyStr ''John A. Doe''), (''member_id'', PyStr ''M-1'')]))
     ''Member: John Doe''
   = ([''Member: John Doe''], Inl (AttributeError (no_attribute ''IdCardAgent'' ''_call_llm'')))"
    by (rule IdCard_extract_fallback_raises)
qed

text \<open>
  Claim C10 says that the lab report agent fills an absent \<^verbatim>\<open>date_reported\<close> with the
  current date instead of failing, so that its result depends on the day. In the code
  the fallback pass raises before the default is set: the agent fails on every text,
  also when the regex pass found every required field, and its outcome is the same on
  two different days.
\<close>

theorem C10_lab_report_never_succeeds:
  "LabReport_extract \<lparr>year = 2026, month = 11, day = 4\<rparr>
     (\<lambda>t. [(''test_results'', PyList []), (''patient_name'', PyStr ''John Doe''),
            (''date_collected'', PyStr ''2024-04-10'')])
     (extract_with_llm ''LabReportAgent'' (\<lambda>t. t) (\<lambda>response. Inr []))
     ''Patient: John Doe Collected: 04/10/2024''
   = ([''Patient: John Doe Collected: 04/10/2024''],
      Inl (AttributeError (no_attribute ''LabReportAgent'' ''_call_llm''))) \<and>
   LabReport_extract \<lparr>year = 2026, month = 11, day = 5\<rparr>
     (\<lambda>t. [(''test_results'', PyList []), (''patient_name'', PyStr ''John Doe''),
            (''date_collected'', PyStr ''2024-04-10'')])
     (extract_with_llm ''LabReportAgent'' (\<lambda>t. t) (\<lambda>response. Inr []))
     ''Patient: John Doe Collected: 04/10/2024''
   = LabReport_extract \<lparr>year = 2026, month = 11, day = 4\<rparr>
     (\<lambda>t. [(''test_results'', PyList []), (''patient_name'', PyStr ''John Doe''),
            (''date_collected'', PyStr ''2024-04-10'')])
     (extract_with_llm ''LabReportAgent'' (\<lambda>t. t) (\<lambda>response. Inr []))
     ''Patient: John Doe Collected: 04/10/2024''"
  by (simp only: LabReport_extract_fallback_raises)

subsection \<open>When the fallback pass is invoked\<close>

lemma Bill_extract_fields_calls:
  "fst (Bill_extract_fields regex llm text) =
     (if has_all (regex text) Bill_required_fields then [] else [text])"
  by (simp add: Bill_extract_fields_def Let_def split: sum.split)

lemma Bill_extract_calls:
  "\<forall>t \<in> set (fst (Bill_extract pdf_text read_text regex llm text file_path)).
     \<not> has_all (regex t) Bill_required_fields"
proof -
  have "fst (Bill_extract pdf_text read_text regex llm text file_path) = [] \<or>
        (\<exists>t. fst (Bill_extract pdf_text read_text regex llm text file_path) =
               fst (Bill_extract_fields regex llm t))"
    unfolding Bill_extract_def by (simp split: sum.split option.split) blast
  then show ?thesis
    by (auto simp: Bill_extract_fields_calls split: if_splits)
qed

lemma IdCard_extract_calls: "fst (IdCard_extract regex llm text) = [text]"
  by (simp add: IdCard_extract_def Let_def split: sum.split)

lemma Prescription_extract_calls: "fst (Prescription_extract regex llm text) = [text]"
  by (simp add: Prescription_extract_def Let_def split: sum.split)

lemma LabReport_extract_calls: "fst (LabReport_extract now regex llm text) = [text]"
  by (simp add: LabReport_extract_def Let_def split: sum.split)

lemma Discharge_extract_calls: "fst (Discharge_extract regex llm text) = [text]"
  by (simp add: Discharge_extract_def Let_def split: sum.split)

text \<open>
  Claim C7, as the code has it. Of the agents only the bill agent makes the invocation
  of the fallback pass depend on the regex pass: it hands a text to
  \<^verbatim>\<open>_extract_with_llm\<close> only when \<^verbatim>\<open>total_amount\<close> or \<^verbatim>\<open>date_of_service\<close> is missing from
  the regex result of that text. The ID card, prescription, lab report and discharge
  agents invoke the fallback pass once on every text, whatever the regex pass produced.
  The statement is about the invocation of the pass, for every fallback pass \<open>llm\<close>; it
  says nothing of a backend being reached.
\<close>

theorem C7_only_bill_agent_gates_fallback:
  "fst (Bill_extract_fields regex llm text) =
     (if has_all (regex text) Bill_required_fields then [] else [text]) \<and>
   (\<forall>t \<in> set (fst (Bill_extract pdf_text read_text regex llm text file_path)).
      \<not> has_all (regex t) Bill_required_fields) \<and>
   fst (IdCard_extract regex llm text) = [text] \<and>
   fst (Prescription_extract regex llm text) = [text] \<and>
   fst (LabReport_extract now regex llm text) = [text] \<and>
   fst (Discharge_extract regex llm text) = [text]"
  by (intro conjI Bill_extract_fields_calls Bill_extract_calls IdCard_extract_calls
        Prescription_extract_calls LabReport_extract_calls Discharge_extract_calls)

theorem C7_fallback_witness:
  "fst (Bill_extract_fields
          (\<lambda>t. [(''total_amount'', PyNum 100), (''date_of_service'', PyStr ''2024-04-10'')])
          (extract_with_llm ''BillAgent'' (\<lambda>t. t) (\<lambda>response. Inr []))
          ''Total: 100 Date: 04/10/2024'') = [] \<and>
   fst (Bill_extract_fields (\<lambda>t. [(''total_amount'', PyNum 100)])
          (extract_with_llm ''BillAgent'' (\<lambda>t. t) (\<lambda>response. Inr []))
          ''Total: 100'') = [''Total: 100''] \<and>
   fst (IdCard_extract
          (\<lambda>t. [(''insurance_provider'', PyStr ''Aetna''), (''policy_number'', PyStr ''P-1''),
                 (''member_id'', PyStr ''M-1''), (''member_name'', PyStr ''John Doe'')])
          (extract_with_llm ''IdCardAgent'' (\<lambda>t. t) (\<lambda>response. Inr []))
          ''Aetna Policy: P-1 Member: M-1 Name: John Doe'')
     = [''Aetna Policy: P-1 Member: M-1 Name: John Doe'']"
proof -
  let ?B = "extract_with_llm ''BillAgent'' (\<lambda>t. t) (\<lambda>response. (Inr [] :: error + dict))"
  let ?I = "extract_with_llm ''IdCardAgent'' (\<lambda>t. t) (\<lambda>response. (Inr [] :: error + dict))"
  let ?full = "\<lambda>t::string. [(''total_amount'', PyNum 100), (''date_of_service'', PyStr ''2024-04-10'')]"
  let ?part = "\<lambda>t::string. [(''total_amount'', PyNum 100)]"
  let ?card = "\<lambda>t::string. [(''insurance_provider'', PyStr ''Aetna''), (''policy_number'', PyStr ''P-1''),
                 (''member_id'', PyStr ''M-1''), (''member_name'', PyStr ''John Doe'')]"
  have hf: "has_all (?full ''Total: 100 Date: 04/10/2024'') Bill_required_fields"
    by (simp add: Bill_required_fields_def has_all_def has_key_def)
  have hp: "\<not> has_all (?part ''Total: 100'') Bill_required_fields"
    by (simp add: Bill_required_fields_def has_all_def has_key_def)
  have a: "fst (Bill_extract_fields ?full ?B ''Total: 100 Date: 04/10/2024'') = []"
    using C7_only_bill_agent_gates_fallback
            [of ?full ?B "''Total: 100 Date: 04/10/2024''", THEN conjunct1] hf
    by (simp only: if_True)
  have b: "fst (Bill_extract_fields ?part ?B ''Total: 100'') = [''Total: 100'']"
    using C7_only_bill_agent_gates_fallback [of ?part ?B "''Total: 100''", THEN conjunct1] hp
    by (simp only: if_False)
  have c: "fst (IdCard_extract ?card ?I ''Aetna Policy: P-1 Member: M-1 Name: John Doe'')
             = [''Aetna Policy: P-1 Member: M-1 Name: John Doe'']"
    by (rule C7_only_bill_agent_gates_fallback
          [of ?card ?I "''Aetna Policy: P-1 Member: M-1 Name: John Doe''",
           THEN conjunct2, THEN conjunct2, THEN conjunct1])
  show ?thesis by (intro conjI a b c)
qed

text \<open>
  Claim C7 as stated fails for the ID card agent: the regex pass has produced all four
  required fields and the fallback pass is invoked all the same.
\<close>

theorem C7_id_card_counterexample:
  "\<not> (has_all ((\<lambda>t. [(''insurance_provider'', PyStr ''Aetna''), (''policy_number'', PyStr ''P-1''),
                      (''member_id'', PyStr ''M-1''), (''member_name'', PyStr ''John Doe'')])
                ''Aetna Policy: P-1 Member: M-1 Name: John Doe'') IdCard_required_fields \<longrightarrow>
       fst (IdCard_extract
              (\<lambda>t. [(''insurance_provider'', PyStr ''Aetna''), (''policy_number'', PyStr ''P-1''),
                     (''member_id'', PyStr ''M-1''), (''member_name'', PyStr ''John Doe'')])
              (extract_with_llm ''IdCardAgent'' (\<lambda>t. t) (\<lambda>response. Inr []))
              ''Aetna Policy: P-1 Member: M-1 Name: John Doe'') = [])"
  by (simp add: IdCard_extract_calls IdCard_required_fields_def has_all_def has_key_def)

subsection \<open>Date normalization\<close>































end
